theory Spec2Isabelle
  imports Main "HOL-Library.Word"
begin

section \<open>JavaScript values\<close>

text \<open>
  The values an attribute of a tree node can hold. A number is an integer \<open>n\<close> with
  \<open>- 2 ^ 53 \<le> n < 2 ^ 53\<close>, carried as a 54-bit word read as signed (\<open>sint\<close>): these
  are numbers a double holds exactly and JavaScript prints in plain decimal. No
  arithmetic is done on them. \<open>NaN\<close> is a value of its own; fractions, larger numbers
  and infinities are outside the type. An object or a function is given by the
  string that converting it to a string yields: the conversion runs the object's own
  \<open>toString\<close>, code outside this file, which is taken to return that string without
  throwing or changing the state. The falsy values of JavaScript are all there:
  \<open>undefined\<close>, \<open>null\<close>, \<open>false\<close>, \<open>0\<close>, \<open>NaN\<close> and the empty string.
\<close>

datatype jsval =
    JUndefined
  | JNull
  | JBool bool
  | JNum "54 word"
  | JNaN
  | JStr string
  | JObj string

text \<open>\<open>ToBoolean\<close>: what \<open>||\<close> and \<open>?:\<close> test.\<close>

fun truthy :: "jsval \<Rightarrow> bool" where
  "truthy JUndefined = False"
| "truthy JNull = False"
| "truthy (JBool b) = b"
| "truthy (JNum n) = (n \<noteq> 0)"
| "truthy JNaN = False"
| "truthy (JStr s) = (s \<noteq> [])"
| "truthy (JObj s) = True"

text \<open>\<open>x || y\<close>: the left operand when it is truthy, the right one otherwise.\<close>

definition js_or :: "jsval \<Rightarrow> jsval \<Rightarrow> jsval" where
  "js_or x y = (if truthy x then x else y)"

definition digit_char :: "nat \<Rightarrow> char" where
  "digit_char d =
     (if d = 0 then CHR ''0'' else if d = 1 then CHR ''1'' else if d = 2 then CHR ''2''
      else if d = 3 then CHR ''3'' else if d = 4 then CHR ''4'' else if d = 5 then CHR ''5''
      else if d = 6 then CHR ''6'' else if d = 7 then CHR ''7'' else if d = 8 then CHR ''8''
      else CHR ''9'')"

fun string_of_nat :: "nat \<Rightarrow> string" where
  "string_of_nat n =
     (if n < 10 then [digit_char n]
      else string_of_nat (n div 10) @ [digit_char (n mod 10)])"

declare string_of_nat.simps [simp del]

definition string_of_int :: "int \<Rightarrow> string" where
  "string_of_int n = (if n < 0 then CHR ''-'' # string_of_nat (nat (- n)) else string_of_nat (nat n))"

text \<open>
  \<open>ToString\<close>: the conversion the assignment to \<open>innerHTML\<close> applies to the value
  on its right-hand side. A number of the type is below \<open>10 ^ 21\<close> in magnitude, where
  JavaScript writes an integer with all its decimal digits and no exponent.
\<close>

fun toString :: "jsval \<Rightarrow> string" where
  "toString JUndefined = ''undefined''"
| "toString JNull = ''null''"
| "toString (JBool b) = (if b then ''true'' else ''false'')"
| "toString (JNum n) = string_of_int (sint n)"
| "toString JNaN = ''NaN''"
| "toString (JStr s) = s"
| "toString (JObj s) = s"

section \<open>The row, its tree and its cells\<close>

text \<open>
  \<open>node.attributes\<close> is an object used as a dictionary. \<open>own\<close> holds its own
  properties; \<open>inherited\<close> holds the properties found along its prototype chain.
  Reading \<open>a[k]\<close> gives the own property when there is one, otherwise the inherited
  one, otherwise \<open>undefined\<close>.
\<close>

record attrs =
  own :: "string \<rightharpoonup> jsval"
  inherited :: "string \<rightharpoonup> jsval"

definition get_attr :: "attrs \<Rightarrow> string \<Rightarrow> jsval" where
  "get_attr a k =
     (case own a k of
        Some v \<Rightarrow> v
      | None \<Rightarrow> (case inherited a k of Some v \<Rightarrow> v | None \<Rightarrow> JUndefined))"

text \<open>
  A column definition. \<open>tpl\<close> is the optional template: \<open>None\<close> when \<open>c.tpl\<close> is
  missing, otherwise what its \<open>apply\<close> returns on an attribute mapping. The template
  class belongs to the framework, so \<open>apply\<close> is a parameter here: a function that
  reads the attributes, returns a string, and neither throws nor changes the state.
  \<open>dataIndex\<close> is the property key; \<open>text'\<close> is the property \<open>text\<close>.
\<close>

record column =
  tpl :: "(attrs \<Rightarrow> string) option"
  dataIndex :: string
  text' :: string

record tree =
  columns :: "column list"

text \<open>\<open>getOwnerTree\<close> is \<open>None\<close> for a node that is in no tree (the call returns null).\<close>

record treeNode =
  attributes :: attrs
  getOwnerTree :: "tree option"

text \<open>
  The row UI object (\<open>this\<close>) with the part of the program state the method reaches.
  DOM elements are addresses into a store of their \<open>innerHTML\<close> strings, so that two
  paths reaching the same element are visible as such; the store holds for each
  element the string last assigned to its \<open>innerHTML\<close>.
  \<open>anchor_firstChild\<close> is \<open>this.anchor.firstChild\<close>; entry \<open>i\<close> of
  \<open>elNode_childNodes\<close> is \<open>this.elNode.childNodes[i].firstChild\<close>; \<open>None\<close> is a
  null \<open>firstChild\<close>. \<open>global_i\<close> and \<open>global_len\<close> are the properties \<open>i\<close> and
  \<open>len\<close> of the global object, which the loop assigns without declaring them
  (\<open>JUndefined\<close> while they have never been assigned).
\<close>

type_synonym addr = nat

record state =
  rendered :: bool
  node :: treeNode
  anchor_firstChild :: "addr option"
  elNode_childNodes :: "addr option list"
  innerHTML :: "addr \<Rightarrow> string"
  global_i :: jsval
  global_len :: jsval

datatype fault = TypeError

text \<open>
  A call either returns (\<open>Inr\<close>, with the state it leaves) or throws (\<open>Inl\<close>, with
  the fault and the state at the throw: writes made before it stay). Reading a
  property of \<open>undefined\<close> or \<open>null\<close>, or assigning one, throws a \<open>TypeError\<close>.
\<close>

type_synonym result = "(fault \<times> state) + state"

fun state_after :: "result \<Rightarrow> state" where
  "state_after (Inl (e, s)) = s"
| "state_after (Inr s) = s"

text \<open>\<open>xs[i]\<close> on a JavaScript array: \<open>None\<close> stands for \<open>undefined\<close> out of range.\<close>

definition js_index :: "'a list \<Rightarrow> nat \<Rightarrow> 'a option" where
  "js_index xs i = (if i < length xs then Some (xs ! i) else None)"

section \<open>updateColumns\<close>

text \<open>The expression \<open>c.tpl ? c.tpl.apply(a) : a[c.dataIndex] || c.text\<close>.\<close>

definition cellValue :: "column \<Rightarrow> attrs \<Rightarrow> jsval" where
  "cellValue c a =
     (case tpl c of
        Some t \<Rightarrow> JStr (t a)
      | None \<Rightarrow> js_or (get_attr a (dataIndex c)) (JStr (text' c)))"

definition set_innerHTML :: "addr \<Rightarrow> jsval \<Rightarrow> state \<Rightarrow> state" where
  "set_innerHTML p v s = s\<lparr>innerHTML := (innerHTML s)(p := toString v)\<rparr>"

text \<open>
  The loop \<open>for(i = 1, len = cols.length; i < len; i++)\<close> from the test \<open>i < len\<close> on.
  The counter and the bound are passed as arguments, and every \<open>i++\<close> is also written
  to the global \<open>i\<close> of the state, so the state an iteration starts from holds the
  current value of \<open>i\<close>. An array has fewer than \<open>2 ^ 32\<close> elements, so the counter
  and the bound are numbers of the type. In an iteration \<open>c = cols[i]\<close> is \<open>undefined\<close> out of range and
  \<open>c.tpl\<close> then throws; \<open>childNodes[i]\<close> out of range or a null \<open>firstChild\<close> throws
  too.
\<close>

function updateRemaining :: "attrs \<Rightarrow> column list \<Rightarrow> nat \<Rightarrow> nat \<Rightarrow> state \<Rightarrow> result" where
  "updateRemaining a cols i len s =
     (if i < len then
        (case js_index cols i of
           None \<Rightarrow> Inl (TypeError, s)
         | Some c \<Rightarrow>
             (case js_index (elNode_childNodes s) i of
                None \<Rightarrow> Inl (TypeError, s)
              | Some None \<Rightarrow> Inl (TypeError, s)
              | Some (Some p) \<Rightarrow>
                  updateRemaining a cols (i + 1) len
                    ((set_innerHTML p (cellValue c a) s)\<lparr>global_i := JNum (of_nat (i + 1))\<rparr>)))
      else Inr s)"
  by pat_completeness auto
termination
  by (relation "measure (\<lambda>(a, cols, i, len, s). len - i)") auto

declare updateRemaining.simps [simp del]

text \<open>
  The method. After the guard it reads the attributes and the columns of the owning
  tree, writes the first cell through \<open>anchor.firstChild\<close>, initialises the two globals
  and runs the loop. With no owning tree \<open>t.columns\<close> throws, with no column \<open>c.tpl\<close>
  throws, with no child of the anchor the assignment throws.
\<close>

definition updateColumns :: "state \<Rightarrow> result" where
  "updateColumns s =
     (if \<not> rendered s then Inr s
      else
        (case getOwnerTree (node s) of
           None \<Rightarrow> Inl (TypeError, s)
         | Some t \<Rightarrow>
             (let a = attributes (node s); cols = columns t in
              (case js_index cols 0 of
                 None \<Rightarrow> Inl (TypeError, s)
               | Some c \<Rightarrow>
                   (case anchor_firstChild s of
                      None \<Rightarrow> Inl (TypeError, s)
                    | Some p \<Rightarrow>
                        updateRemaining a cols 1 (length cols)
                          ((set_innerHTML p (cellValue c a) s)
                             \<lparr>global_i := JNum 1, global_len := JNum (of_nat (length cols))\<rparr>))))))"

section \<open>Cells and columns\<close>

text \<open>
  Cell \<open>0\<close> of a row is the element \<open>anchor.firstChild\<close>; cell \<open>i\<close>, for \<open>i\<close> from 1
  on, is \<open>elNode.childNodes[i].firstChild\<close>. \<open>cell_text\<close> is the string the cell
  holds, when the cell exists.
\<close>

definition cell_slot :: "state \<Rightarrow> nat \<Rightarrow> addr option" where
  "cell_slot s i =
     (if i = 0 then anchor_firstChild s
      else (case js_index (elNode_childNodes s) i of None \<Rightarrow> None | Some q \<Rightarrow> q))"

definition cell_text :: "state \<Rightarrow> nat \<Rightarrow> string option" where
  "cell_text s i = map_option (innerHTML s) (cell_slot s i)"

text \<open>
  The invariant of a rendered row: every column of the tree has its cell, and the
  cells of different columns are different elements.
\<close>

definition cells_match :: "state \<Rightarrow> column list \<Rightarrow> bool" where
  "cells_match s cols =
     (list_all (\<lambda>i. cell_slot s i \<noteq> None) [0..<length cols] \<and>
      distinct (map (cell_slot s) [0..<length cols]))"

section \<open>The loop as a list of writes\<close>

text \<open>
  What the loop does does not depend on the store it writes to: \<open>loop_plan\<close> gives,
  from the test \<open>i < len\<close> on, whether the loop ends normally, the value of \<open>i\<close> where
  it stops, and the writes it makes in order. \<open>finish\<close> applies such a plan to a
  state. They are used to reason about \<open>updateRemaining\<close>, see
  \<open>updateRemaining_plan\<close>.
\<close>

definition store_write :: "addr \<times> string \<Rightarrow> (addr \<Rightarrow> string) \<Rightarrow> (addr \<Rightarrow> string)" where
  "store_write w h = h(fst w := snd w)"

function loop_plan ::
  "attrs \<Rightarrow> column list \<Rightarrow> addr option list \<Rightarrow> nat \<Rightarrow> nat \<Rightarrow> bool \<times> nat \<times> (addr \<times> string) list" where
  "loop_plan a cols cn i len =
     (if i < len then
        (case js_index cols i of
           None \<Rightarrow> (False, i, [])
         | Some c \<Rightarrow>
             (case js_index cn i of
                None \<Rightarrow> (False, i, [])
              | Some None \<Rightarrow> (False, i, [])
              | Some (Some p) \<Rightarrow>
                  (case loop_plan a cols cn (i + 1) len of
                     (ok, k, ws) \<Rightarrow> (ok, k, (p, toString (cellValue c a)) # ws))))
      else (True, i, []))"
  by pat_completeness auto
termination
  by (relation "measure (\<lambda>(a, cols, cn, i, len). len - i)") auto

declare loop_plan.simps [simp del]

definition finish :: "bool \<times> nat \<times> (addr \<times> string) list \<Rightarrow> nat \<Rightarrow> state \<Rightarrow> result" where
  "finish pl i s =
     (case pl of (ok, k, ws) \<Rightarrow>
        (let s' = s\<lparr>innerHTML := fold store_write ws (innerHTML s),
                     global_i := (if k = i then global_i s else JNum (of_nat k))\<rparr>
         in if ok then Inr s' else Inl (TypeError, s')))"

section \<open>The specification's wording of the attribute tier\<close>

text \<open>
  The specification words the second tier of the precedence as "\<open>attributes[dataIndex]\<close>
  if present", and in its testable properties as "present and non-empty". These
  definitions follow those words, to be compared with \<open>cellValue\<close>: a value is present
  when the attribute is there and is neither \<open>undefined\<close> nor \<open>null\<close>, and non-empty when
  it is not the empty string.
\<close>

definition spec_present :: "jsval \<Rightarrow> bool" where
  "spec_present v = (v \<noteq> JUndefined \<and> v \<noteq> JNull)"

definition spec_text_if_present :: "column \<Rightarrow> attrs \<Rightarrow> string" where
  "spec_text_if_present c a =
     (case tpl c of
        Some t \<Rightarrow> t a
      | None \<Rightarrow>
          (if spec_present (get_attr a (dataIndex c)) then toString (get_attr a (dataIndex c))
           else text' c))"

definition spec_text_if_nonempty :: "column \<Rightarrow> attrs \<Rightarrow> string" where
  "spec_text_if_nonempty c a =
     (if spec_present (get_attr a (dataIndex c)) \<and> get_attr a (dataIndex c) \<noteq> JStr []
      then toString (get_attr a (dataIndex c))
      else text' c)"

section \<open>Example rows\<close>

text \<open>
  The two columns of the scenarios, without templates, and a template that formats
  the attribute \<open>size\<close>.
\<close>

definition name_size_columns :: "column list" where
  "name_size_columns =
     [\<lparr>tpl = None, dataIndex = ''name'', text' = ''Name''\<rparr>,
      \<lparr>tpl = None, dataIndex = ''size'', text' = ''Size''\<rparr>]"

definition size_tpl :: "attrs \<Rightarrow> string" where
  "size_tpl a = toString (get_attr a ''size'') @ '' bytes''"

text \<open>
  An object written as a literal, \<open>{k: v, ...}\<close>: its own properties are the ones
  written, and it inherits those of \<open>Object.prototype\<close>, all of them functions but
  \<open>__proto__\<close>, which reads as the prototype itself. Their string forms are the ones
  V8 prints.
\<close>

definition object_prototype :: "string \<rightharpoonup> jsval" where
  "object_prototype =
     map_of
       [(''constructor'', JObj ''function Object() { [native code] }''),
        (''hasOwnProperty'', JObj ''function hasOwnProperty() { [native code] }''),
        (''isPrototypeOf'', JObj ''function isPrototypeOf() { [native code] }''),
        (''propertyIsEnumerable'', JObj ''function propertyIsEnumerable() { [native code] }''),
        (''toLocaleString'', JObj ''function toLocaleString() { [native code] }''),
        (''toString'', JObj ''function toString() { [native code] }''),
        (''valueOf'', JObj ''function valueOf() { [native code] }''),
        (''__defineGetter__'', JObj ''function __defineGetter__() { [native code] }''),
        (''__defineSetter__'', JObj ''function __defineSetter__() { [native code] }''),
        (''__lookupGetter__'', JObj ''function __lookupGetter__() { [native code] }''),
        (''__lookupSetter__'', JObj ''function __lookupSetter__() { [native code] }''),
        (''__proto__'', JObj ''[object Object]'')]"

definition object_literal :: "(string \<rightharpoonup> jsval) \<Rightarrow> attrs" where
  "object_literal props = \<lparr>own = props, inherited = object_prototype\<rparr>"

text \<open>
  A row with two cells: the anchor's child is element 0, the second child of
  \<open>elNode\<close> has element 1 as first child; the first child of \<open>elNode\<close> starts with
  element 2 (the indentation of the row). No cell has been written yet. The
  attributes are an object literal with the properties \<open>props\<close>.
\<close>

definition example_row :: "bool \<Rightarrow> (string \<rightharpoonup> jsval) \<Rightarrow> column list \<Rightarrow> state" where
  "example_row r props cols =
     \<lparr>rendered = r,
      node = \<lparr>attributes = object_literal props, getOwnerTree = Some \<lparr>columns = cols\<rparr>\<rparr>,
      anchor_firstChild = Some 0,
      elNode_childNodes = [Some 2, Some 1],
      innerHTML = (\<lambda>p. []),
      global_i = JUndefined,
      global_len = JUndefined\<rparr>"

text \<open>
  Rendered rows over these columns: the attributes of the two scenarios, a row whose
  \<open>size\<close> is the number 0, one whose \<open>size\<close> is the boolean false, and a row whose second
  column has a template.
\<close>

definition file_row :: state where
  "file_row = example_row True [''name'' \<mapsto> JStr ''file.txt'', ''size'' \<mapsto> JNum 1024] name_size_columns"

definition unnamed_row :: state where
  "unnamed_row = example_row True [''name'' \<mapsto> JStr [], ''size'' \<mapsto> JNum 1024] name_size_columns"

definition empty_file_row :: state where
  "empty_file_row = example_row True [''name'' \<mapsto> JStr ''file.txt'', ''size'' \<mapsto> JNum 0] name_size_columns"

definition flag_row :: state where
  "flag_row = example_row True [''name'' \<mapsto> JStr ''file.txt'', ''size'' \<mapsto> JBool False] name_size_columns"

definition tpl_columns :: "column list" where
  "tpl_columns =
     [\<lparr>tpl = None, dataIndex = ''name'', text' = ''Name''\<rparr>,
      \<lparr>tpl = Some size_tpl, dataIndex = ''name'', text' = ''Size''\<rparr>]"

definition tpl_row :: state where
  "tpl_row = example_row True [''name'' \<mapsto> JStr ''file.txt'', ''size'' \<mapsto> JNum 1024] tpl_columns"

text \<open>
  A rendered row whose attributes are the empty object \<open>{}\<close>, in a tree whose one column
  reads the key \<open>constructor\<close>, and a row whose \<open>size\<close> is the least number of the type.
\<close>

definition constructor_columns :: "column list" where
  "constructor_columns = [\<lparr>tpl = None, dataIndex = ''constructor'', text' = ''X''\<rparr>]"

definition bare_row :: state where
  "bare_row = example_row True Map.empty constructor_columns"

definition huge_row :: state where
  "huge_row =
     example_row True [''name'' \<mapsto> JStr ''file.txt'', ''size'' \<mapsto> JNum (- 9007199254740992)]
       name_size_columns"

section \<open>Properties of the loop\<close>

lemma updateRemaining_frame:
  "rendered (state_after (updateRemaining a cols i len s)) = rendered s \<and>
   node (state_after (updateRemaining a cols i len s)) = node s \<and>
   anchor_firstChild (state_after (updateRemaining a cols i len s)) = anchor_firstChild s \<and>
   elNode_childNodes (state_after (updateRemaining a cols i len s)) = elNode_childNodes s \<and>
   global_len (state_after (updateRemaining a cols i len s)) = global_len s"
proof (induction a cols i len s rule: updateRemaining.induct)
  case (1 a cols i len s)
  show ?case
  proof (cases "i < len")
    case False
    then show ?thesis by (simp add: updateRemaining.simps)
  next
    case True
    show ?thesis
    proof (cases "js_index cols i")
      case None
      with True show ?thesis by (simp add: updateRemaining.simps)
    next
      case (Some c)
      show ?thesis
      proof (cases "js_index (elNode_childNodes s) i")
        case None
        with True Some show ?thesis by (simp add: updateRemaining.simps)
      next
        case outer: (Some q)
        show ?thesis
        proof (cases q)
          case None
          with True Some outer show ?thesis by (simp add: updateRemaining.simps)
        next
          case inner: (Some p)
          from "1.IH"[OF True Some outer inner] True Some outer inner
          show ?thesis
            by (simp add: updateRemaining.simps [of a cols i len s] set_innerHTML_def)
        qed
      qed
    qed
  qed
qed

lemma updateRemaining_written:
  assumes "\<forall>j. i \<le> j \<and> j < len \<longrightarrow> j < length cols \<and> (\<exists>p. js_index (elNode_childNodes s) j = Some (Some p))"
    and "\<forall>j k. i \<le> j \<and> j < k \<and> k < len \<longrightarrow> js_index (elNode_childNodes s) j \<noteq> js_index (elNode_childNodes s) k"
  shows "\<exists>s'. updateRemaining a cols i len s = Inr s' \<and>
      (\<forall>j p. i \<le> j \<and> j < len \<and> js_index (elNode_childNodes s) j = Some (Some p) \<longrightarrow>
          innerHTML s' p = toString (cellValue (cols ! j) a)) \<and>
      (\<forall>q. (\<forall>j. i \<le> j \<and> j < len \<longrightarrow> js_index (elNode_childNodes s) j \<noteq> Some (Some q)) \<longrightarrow>
          innerHTML s' q = innerHTML s q) \<and>
      global_i s' = (if i < len then JNum (of_nat len) else global_i s)"
  using assms
proof (induction a cols i len s rule: updateRemaining.induct)
  case (1 a cols i len s)
  show ?case
  proof (cases "i < len")
    case False
    then show ?thesis by (auto simp add: updateRemaining.simps)
  next
    case True
    from "1.prems"(1) True obtain p where
      ci: "i < length cols" and p: "js_index (elNode_childNodes s) i = Some (Some p)"
      by (metis le_refl)
    have c: "js_index cols i = Some (cols ! i)" using ci by (simp add: js_index_def)
    let ?s1 = "(set_innerHTML p (cellValue (cols ! i) a) s)\<lparr>global_i := JNum (of_nat (i + 1))\<rparr>"
    have cn: "elNode_childNodes ?s1 = elNode_childNodes s" by (simp add: set_innerHTML_def)
    have step: "updateRemaining a cols i len s = updateRemaining a cols (i + 1) len ?s1"
      using True c p by (simp add: updateRemaining.simps [of a cols i len s])
    have pre1: "\<forall>j. i + 1 \<le> j \<and> j < len \<longrightarrow> j < length cols \<and> (\<exists>p. js_index (elNode_childNodes ?s1) j = Some (Some p))"
      using "1.prems"(1) cn by simp
    have pre2: "\<forall>j k. i + 1 \<le> j \<and> j < k \<and> k < len \<longrightarrow> js_index (elNode_childNodes ?s1) j \<noteq> js_index (elNode_childNodes ?s1) k"
      using "1.prems"(2) cn by simp
    from "1.IH"[OF True c p refl pre1 pre2] obtain s' where
      r: "updateRemaining a cols (i + 1) len ?s1 = Inr s'"
      and w: "\<forall>j p. i + 1 \<le> j \<and> j < len \<and> js_index (elNode_childNodes ?s1) j = Some (Some p) \<longrightarrow>
          innerHTML s' p = toString (cellValue (cols ! j) a)"
      and u: "\<forall>q. (\<forall>j. i + 1 \<le> j \<and> j < len \<longrightarrow> js_index (elNode_childNodes ?s1) j \<noteq> Some (Some q)) \<longrightarrow>
          innerHTML s' q = innerHTML ?s1 q"
      and g: "global_i s' = (if i + 1 < len then JNum (of_nat len) else global_i ?s1)"
      by blast
    have pfresh: "\<forall>j. i + 1 \<le> j \<and> j < len \<longrightarrow> js_index (elNode_childNodes s) j \<noteq> Some (Some p)"
    proof (intro allI impI)
      fix j assume h: "i + 1 \<le> j \<and> j < len"
      then have "i \<le> i \<and> i < j \<and> j < len" by simp
      with "1.prems"(2) have "js_index (elNode_childNodes s) i \<noteq> js_index (elNode_childNodes s) j"
        by blast
      with p show "js_index (elNode_childNodes s) j \<noteq> Some (Some p)" by simp
    qed
    have A: "\<forall>j q. i \<le> j \<and> j < len \<and> js_index (elNode_childNodes s) j = Some (Some q) \<longrightarrow>
          innerHTML s' q = toString (cellValue (cols ! j) a)"
    proof (intro allI impI)
      fix j q assume h: "i \<le> j \<and> j < len \<and> js_index (elNode_childNodes s) j = Some (Some q)"
      show "innerHTML s' q = toString (cellValue (cols ! j) a)"
      proof (cases "j = i")
        case True
        with h p have "q = p" by simp
        moreover have "innerHTML s' p = innerHTML ?s1 p" using u pfresh cn by simp
        ultimately show ?thesis using True by (simp add: set_innerHTML_def)
      next
        case False
        with h have "i + 1 \<le> j" by simp
        with w h cn show ?thesis by simp
      qed
    qed
    have B: "\<forall>q. (\<forall>j. i \<le> j \<and> j < len \<longrightarrow> js_index (elNode_childNodes s) j \<noteq> Some (Some q)) \<longrightarrow>
          innerHTML s' q = innerHTML s q"
    proof (intro allI impI)
      fix q assume h: "\<forall>j. i \<le> j \<and> j < len \<longrightarrow> js_index (elNode_childNodes s) j \<noteq> Some (Some q)"
      then have "q \<noteq> p" using p True by auto
      moreover have "innerHTML s' q = innerHTML ?s1 q" using u h cn by simp
      ultimately show "innerHTML s' q = innerHTML s q" by (simp add: set_innerHTML_def)
    qed
    have C: "global_i s' = JNum (of_nat len)"
    proof (cases "i + 1 < len")
      case True then show ?thesis using g by simp
    next
      case False
      with True have "len = i + 1" by simp
      then show ?thesis using g by simp
    qed
    show ?thesis using step r A B C True by simp
  qed
qed


lemma fold_store_write:
  "fold store_write ws h q = (case map_of (rev ws) q of None \<Rightarrow> h q | Some v \<Rightarrow> v)"
proof (induction ws arbitrary: h)
  case Nil
  show ?case by simp
next
  case (Cons w ws)
  have "fold store_write (w # ws) h q = fold store_write ws (store_write w h) q"
    by simp
  also have "\<dots> = (case map_of (rev ws) q of None \<Rightarrow> store_write w h q | Some v \<Rightarrow> v)"
    by (rule Cons.IH)
  also have "\<dots> = (case map_of (rev (w # ws)) q of None \<Rightarrow> h q | Some v \<Rightarrow> v)"
    by (cases w) (simp add: store_write_def map_add_def split: option.splits)
  finally show ?case .
qed

lemma fold_store_write_twice:
  "fold store_write ws (fold store_write ws h) = fold store_write ws h"
  by (rule ext) (simp add: fold_store_write split: option.splits)

lemma loop_plan_stop: "i \<le> fst (snd (loop_plan a cols cn i len))"
proof (induction a cols cn i len rule: loop_plan.induct)
  case (1 a cols cn i len)
  show ?case
  proof (cases "i < len")
    case False
    then show ?thesis by (simp add: loop_plan.simps)
  next
    case True
    show ?thesis
    proof (cases "js_index cols i")
      case None
      with True show ?thesis by (simp add: loop_plan.simps)
    next
      case (Some c)
      show ?thesis
      proof (cases "js_index cn i")
        case None
        with True Some show ?thesis by (simp add: loop_plan.simps)
      next
        case outer: (Some q)
        show ?thesis
        proof (cases q)
          case None
          with True Some outer show ?thesis by (simp add: loop_plan.simps)
        next
          case inner: (Some p)
          obtain ok k ws where pl: "loop_plan a cols cn (i + 1) len = (ok, k, ws)"
            by (cases "loop_plan a cols cn (i + 1) len")
          from "1.IH"[OF True Some outer inner] pl have "i + 1 \<le> k" by simp
          with True Some outer inner pl show ?thesis
            by (simp add: loop_plan.simps [of a cols cn i len])
        qed
      qed
    qed
  qed
qed

lemma updateRemaining_plan:
  "updateRemaining a cols i len s = finish (loop_plan a cols (elNode_childNodes s) i len) i s"
proof (induction a cols i len s rule: updateRemaining.induct)
  case (1 a cols i len s)
  let ?cn = "elNode_childNodes s"
  show ?case
  proof (cases "i < len")
    case False
    then show ?thesis by (simp add: updateRemaining.simps loop_plan.simps finish_def)
  next
    case True
    show ?thesis
    proof (cases "js_index cols i")
      case None
      with True show ?thesis by (simp add: updateRemaining.simps loop_plan.simps finish_def)
    next
      case (Some c)
      show ?thesis
      proof (cases "js_index ?cn i")
        case None
        with True Some show ?thesis by (simp add: updateRemaining.simps loop_plan.simps finish_def)
      next
        case outer: (Some q)
        show ?thesis
        proof (cases q)
          case None
          with True Some outer show ?thesis
            by (simp add: updateRemaining.simps loop_plan.simps finish_def)
        next
          case inner: (Some p)
          let ?s1 = "(set_innerHTML p (cellValue c a) s)\<lparr>global_i := JNum (of_nat (i + 1))\<rparr>"
          obtain ok k ws where pl: "loop_plan a cols ?cn (i + 1) len = (ok, k, ws)"
            by (cases "loop_plan a cols ?cn (i + 1) len")
          have k: "i + 1 \<le> k" using loop_plan_stop [of "i + 1" a cols ?cn len] pl by simp
          have cn: "elNode_childNodes ?s1 = ?cn" by (simp add: set_innerHTML_def)
          have "updateRemaining a cols i len s = updateRemaining a cols (i + 1) len ?s1"
            using True Some outer inner by (simp add: updateRemaining.simps [of a cols i len s])
          also have "\<dots> = finish (ok, k, ws) (i + 1) ?s1"
            using "1.IH"[OF True Some outer inner] cn pl by simp
          also have "\<dots> = finish (ok, k, (p, toString (cellValue c a)) # ws) i s"
            using k by (simp add: finish_def set_innerHTML_def store_write_def)
          also have "\<dots> = finish (loop_plan a cols ?cn i len) i s"
            using True Some outer inner pl by (simp add: loop_plan.simps [of a cols ?cn i len])
          finally show ?thesis .
        qed
      qed
    qed
  qed
qed

section \<open>The effect of updateColumns on a well-formed row\<close>

lemma cells_match_slot:
  assumes "cells_match s cols" and "i < length cols"
  shows "\<exists>p. cell_slot s i = Some p"
proof -
  from assms(1) have "\<forall>j\<in>set [0..<length cols]. cell_slot s j \<noteq> None"
    by (simp add: cells_match_def list_all_iff)
  with assms(2) have "cell_slot s i \<noteq> None" by simp
  then show ?thesis by blast
qed

lemma cells_match_distinct:
  assumes "cells_match s cols" and "i < length cols" and "j < length cols" and "i \<noteq> j"
  shows "cell_slot s i \<noteq> cell_slot s j"
proof -
  from assms(1) have d: "distinct (map (cell_slot s) [0..<length cols])"
    by (simp add: cells_match_def)
  have "map (cell_slot s) [0..<length cols] ! i \<noteq> map (cell_slot s) [0..<length cols] ! j"
    using d assms(2-4) by (simp add: distinct_conv_nth del: nth_map)
  with assms(2,3) show ?thesis by simp
qed

lemma cell_slot_later:
  "0 < i \<Longrightarrow> cell_slot s i = Some p \<longleftrightarrow> js_index (elNode_childNodes s) i = Some (Some p)"
  by (auto simp add: cell_slot_def split: option.splits)

lemma updateColumns_effect:
  assumes r: "rendered s" and t: "getOwnerTree (node s) = Some t"
    and m: "cells_match s (columns t)" and ne: "columns t \<noteq> []"
  shows "\<exists>s'. updateColumns s = Inr s' \<and>
      (\<forall>i p. i < length (columns t) \<and> cell_slot s i = Some p \<longrightarrow>
          innerHTML s' p = toString (cellValue (columns t ! i) (attributes (node s)))) \<and>
      (\<forall>q. (\<forall>i. i < length (columns t) \<longrightarrow> cell_slot s i \<noteq> Some q) \<longrightarrow>
          innerHTML s' q = innerHTML s q) \<and>
      rendered s' = rendered s \<and> node s' = node s \<and>
      anchor_firstChild s' = anchor_firstChild s \<and>
      elNode_childNodes s' = elNode_childNodes s \<and>
      global_i s' = JNum (of_nat (length (columns t))) \<and>
      global_len s' = JNum (of_nat (length (columns t)))"
proof -
  let ?cols = "columns t"
  let ?a = "attributes (node s)"
  let ?n = "length ?cols"
  let ?cn = "elNode_childNodes s"
  from ne have n0: "0 < ?n" by simp
  from cells_match_slot [OF m n0] obtain p0 where p0: "anchor_firstChild s = Some p0"
    by (auto simp add: cell_slot_def)
  have c0: "js_index ?cols 0 = Some (?cols ! 0)" using n0 by (simp add: js_index_def)
  let ?s1 = "(set_innerHTML p0 (cellValue (?cols ! 0) ?a) s)
               \<lparr>global_i := JNum 1, global_len := JNum (of_nat ?n)\<rparr>"
  have cn1: "elNode_childNodes ?s1 = ?cn" by (simp add: set_innerHTML_def)
  have call: "updateColumns s = updateRemaining ?a ?cols 1 ?n ?s1"
    using r t c0 p0 by (simp add: updateColumns_def Let_def)
  have pre1: "\<forall>j. 1 \<le> j \<and> j < ?n \<longrightarrow>
      j < length ?cols \<and> (\<exists>p. js_index (elNode_childNodes ?s1) j = Some (Some p))"
  proof (intro allI impI)
    fix j assume h: "1 \<le> j \<and> j < ?n"
    then obtain p where "cell_slot s j = Some p" using cells_match_slot [OF m] by blast
    with h have "js_index ?cn j = Some (Some p)" using cell_slot_later [of j s p] by simp
    with h cn1 show "j < length ?cols \<and> (\<exists>p. js_index (elNode_childNodes ?s1) j = Some (Some p))"
      by simp
  qed
  have pre2: "\<forall>j k. 1 \<le> j \<and> j < k \<and> k < ?n \<longrightarrow>
      js_index (elNode_childNodes ?s1) j \<noteq> js_index (elNode_childNodes ?s1) k"
  proof (intro allI impI)
    fix j k assume h: "1 \<le> j \<and> j < k \<and> k < ?n"
    then have "cell_slot s j \<noteq> cell_slot s k" using cells_match_distinct [OF m, of j k] by simp
    with h have "js_index ?cn j \<noteq> js_index ?cn k" by (auto simp add: cell_slot_def)
    with cn1 show "js_index (elNode_childNodes ?s1) j \<noteq> js_index (elNode_childNodes ?s1) k"
      by simp
  qed
  from updateRemaining_written [OF pre1 pre2, of ?a] obtain s' where
    res: "updateRemaining ?a ?cols 1 ?n ?s1 = Inr s'"
    and w: "\<forall>j p. 1 \<le> j \<and> j < ?n \<and> js_index (elNode_childNodes ?s1) j = Some (Some p) \<longrightarrow>
        innerHTML s' p = toString (cellValue (?cols ! j) ?a)"
    and u: "\<forall>q. (\<forall>j. 1 \<le> j \<and> j < ?n \<longrightarrow> js_index (elNode_childNodes ?s1) j \<noteq> Some (Some q)) \<longrightarrow>
        innerHTML s' q = innerHTML ?s1 q"
    and g: "global_i s' = (if 1 < ?n then JNum (of_nat ?n) else global_i ?s1)"
    by blast
  have fr: "rendered s' = rendered ?s1 \<and> node s' = node ?s1 \<and>
      anchor_firstChild s' = anchor_firstChild ?s1 \<and>
      elNode_childNodes s' = elNode_childNodes ?s1 \<and> global_len s' = global_len ?s1"
    using updateRemaining_frame [of ?a ?cols 1 ?n ?s1] res by simp
  have p0fresh: "\<forall>j. 1 \<le> j \<and> j < ?n \<longrightarrow> js_index (elNode_childNodes ?s1) j \<noteq> Some (Some p0)"
  proof (intro allI impI)
    fix j assume h: "1 \<le> j \<and> j < ?n"
    then have "cell_slot s 0 \<noteq> cell_slot s j" using cells_match_distinct [OF m, of 0 j] n0 by simp
    moreover have "cell_slot s 0 = Some p0" using p0 by (simp add: cell_slot_def)
    ultimately have "cell_slot s j \<noteq> Some p0" by simp
    with h have "js_index ?cn j \<noteq> Some (Some p0)" using cell_slot_later [of j s p0] by simp
    with cn1 show "js_index (elNode_childNodes ?s1) j \<noteq> Some (Some p0)" by simp
  qed
  have A: "\<forall>i p. i < ?n \<and> cell_slot s i = Some p \<longrightarrow>
      innerHTML s' p = toString (cellValue (?cols ! i) ?a)"
  proof (intro allI impI)
    fix i p assume h: "i < ?n \<and> cell_slot s i = Some p"
    show "innerHTML s' p = toString (cellValue (?cols ! i) ?a)"
    proof (cases "i = 0")
      case True
      with h p0 have "p = p0" by (simp add: cell_slot_def)
      moreover have "innerHTML s' p0 = innerHTML ?s1 p0" using u p0fresh by blast
      ultimately show ?thesis using True by (simp add: set_innerHTML_def)
    next
      case False
      with h have "js_index ?cn i = Some (Some p)" using cell_slot_later [of i s p] by simp
      with w h False cn1 show ?thesis by simp
    qed
  qed
  have B: "\<forall>q. (\<forall>i. i < ?n \<longrightarrow> cell_slot s i \<noteq> Some q) \<longrightarrow> innerHTML s' q = innerHTML s q"
  proof (intro allI impI)
    fix q assume h: "\<forall>i. i < ?n \<longrightarrow> cell_slot s i \<noteq> Some q"
    with n0 p0 have q0: "q \<noteq> p0" by (auto simp add: cell_slot_def)
    have "\<forall>j. 1 \<le> j \<and> j < ?n \<longrightarrow> js_index (elNode_childNodes ?s1) j \<noteq> Some (Some q)"
    proof (intro allI impI)
      fix j assume j: "1 \<le> j \<and> j < ?n"
      with h have "cell_slot s j \<noteq> Some q" by simp
      with j cn1 show "js_index (elNode_childNodes ?s1) j \<noteq> Some (Some q)"
        using cell_slot_later [of j s q] by simp
    qed
    with u have "innerHTML s' q = innerHTML ?s1 q" by blast
    with q0 show "innerHTML s' q = innerHTML s q" by (simp add: set_innerHTML_def)
  qed
  have G: "global_i s' = JNum (of_nat ?n)"
  proof (cases "1 < ?n")
    case True then show ?thesis using g by simp
  next
    case False
    with n0 have "?n = 1" by (cases ?cols) auto
    then show ?thesis using g by simp
  qed
  have F: "rendered s' = rendered s \<and> node s' = node s \<and>
      anchor_firstChild s' = anchor_firstChild s \<and> elNode_childNodes s' = elNode_childNodes s \<and>
      global_len s' = JNum (of_nat ?n)"
    using fr by (simp add: set_innerHTML_def)
  show ?thesis using call res A B G F by simp
qed

lemma updateColumns_cell:
  assumes "rendered s" and "getOwnerTree (node s) = Some t"
    and "cells_match s (columns t)" and "i < length (columns t)"
  shows "\<exists>s'. updateColumns s = Inr s' \<and>
      cell_text s' i = Some (toString (cellValue (columns t ! i) (attributes (node s))))"
proof -
  from assms(4) have ne: "columns t \<noteq> []" by auto
  from cells_match_slot [OF assms(3,4)] obtain p where p: "cell_slot s i = Some p" by blast
  from updateColumns_effect [OF assms(1-3) ne] obtain s' where
    res: "updateColumns s = Inr s'"
    and w: "\<forall>i p. i < length (columns t) \<and> cell_slot s i = Some p \<longrightarrow>
          innerHTML s' p = toString (cellValue (columns t ! i) (attributes (node s)))"
    and fr: "anchor_firstChild s' = anchor_firstChild s" "elNode_childNodes s' = elNode_childNodes s"
    by blast
  have "cell_slot s' i = cell_slot s i" using fr by (simp add: cell_slot_def)
  with p w assms(4) have "cell_text s' i = Some (toString (cellValue (columns t ! i) (attributes (node s))))"
    by (simp add: cell_text_def)
  with res show ?thesis by simp
qed

lemma updateColumns_frame:
  "rendered (state_after (updateColumns s)) = rendered s \<and>
   node (state_after (updateColumns s)) = node s \<and>
   anchor_firstChild (state_after (updateColumns s)) = anchor_firstChild s \<and>
   elNode_childNodes (state_after (updateColumns s)) = elNode_childNodes s"
  using updateRemaining_frame
  by (simp add: updateColumns_def Let_def set_innerHTML_def split: option.splits)

section \<open>Facts about the example rows\<close>

lemma string_of_int_1024: "string_of_int 1024 = ''1024''"
  by (simp add: string_of_int_def string_of_nat.simps digit_char_def)

lemma toString_1024: "toString (JNum 1024) = ''1024''"
  by (simp add: string_of_int_1024)

lemma toString_least_number: "toString (JNum (- 9007199254740992)) = ''-9007199254740992''"
  by (simp add: string_of_int_def string_of_nat.simps digit_char_def)

lemma number_range: "- (2 ^ 53) \<le> sint n \<and> sint n < 2 ^ 53" for n :: "54 word"
  using sint_ge [of n] sint_lt [of n] by simp

lemma example_row_fields:
  "rendered (example_row r a cols) = r"
  "attributes (node (example_row r a cols)) = object_literal a"
  "getOwnerTree (node (example_row r a cols)) = Some \<lparr>columns = cols\<rparr>"
  "global_i (example_row r a cols) = JUndefined"
  "global_len (example_row r a cols) = JUndefined"
  by (simp_all add: example_row_def)

lemma example_row_cells:
  "cells_match (example_row r a name_size_columns) name_size_columns"
  "cells_match (example_row r a tpl_columns) tpl_columns"
  "cells_match (example_row r a constructor_columns) constructor_columns"
  by (simp_all add: cells_match_def cell_slot_def js_index_def example_row_def
      name_size_columns_def tpl_columns_def constructor_columns_def)

lemma example_row_run:
  "cell_text (state_after (updateColumns (example_row True a name_size_columns))) 0 =
     Some (toString (js_or (get_attr (object_literal a) ''name'') (JStr ''Name'')))"
  "cell_text (state_after (updateColumns (example_row True a name_size_columns))) 1 =
     Some (toString (js_or (get_attr (object_literal a) ''size'') (JStr ''Size'')))"
  "global_i (state_after (updateColumns (example_row True a name_size_columns))) = JNum 2"
  "global_len (state_after (updateColumns (example_row True a name_size_columns))) = JNum 2"
  by (simp_all add: name_size_columns_def updateColumns_def example_row_def
      updateRemaining.simps js_index_def set_innerHTML_def cellValue_def cell_text_def
      cell_slot_def Let_def)

lemma name_size_columns_nth:
  "length name_size_columns = 2"
  "name_size_columns ! 0 = \<lparr>tpl = None, dataIndex = ''name'', text' = ''Name''\<rparr>"
  "name_size_columns ! 1 = \<lparr>tpl = None, dataIndex = ''size'', text' = ''Size''\<rparr>"
  "name_size_columns ! Suc 0 = \<lparr>tpl = None, dataIndex = ''size'', text' = ''Size''\<rparr>"
  by (simp_all add: name_size_columns_def)

lemma constructor_columns_nth:
  "length constructor_columns = 1"
  "constructor_columns ! 0 = \<lparr>tpl = None, dataIndex = ''constructor'', text' = ''X''\<rparr>"
  by (simp_all add: constructor_columns_def)

lemma file_row_hyps:
  "rendered file_row"
  "getOwnerTree (node file_row) = Some \<lparr>columns = name_size_columns\<rparr>"
  "cells_match file_row (columns \<lparr>columns = name_size_columns\<rparr>)"
  "own (attributes (node file_row)) = [''name'' \<mapsto> JStr ''file.txt'', ''size'' \<mapsto> JNum 1024]"
  by (simp_all add: file_row_def example_row_fields example_row_cells object_literal_def)

lemma empty_file_row_hyps:
  "rendered empty_file_row"
  "getOwnerTree (node empty_file_row) = Some \<lparr>columns = name_size_columns\<rparr>"
  "cells_match empty_file_row (columns \<lparr>columns = name_size_columns\<rparr>)"
  "own (attributes (node empty_file_row)) = [''name'' \<mapsto> JStr ''file.txt'', ''size'' \<mapsto> JNum 0]"
  by (simp_all add: empty_file_row_def example_row_fields example_row_cells object_literal_def)

lemma unnamed_row_hyps:
  "rendered unnamed_row"
  "getOwnerTree (node unnamed_row) = Some \<lparr>columns = name_size_columns\<rparr>"
  "cells_match unnamed_row (columns \<lparr>columns = name_size_columns\<rparr>)"
  "own (attributes (node unnamed_row)) = [''name'' \<mapsto> JStr [], ''size'' \<mapsto> JNum 1024]"
  by (simp_all add: unnamed_row_def example_row_fields example_row_cells object_literal_def)
lemma huge_row_hyps:
  "rendered huge_row"
  "getOwnerTree (node huge_row) = Some \<lparr>columns = name_size_columns\<rparr>"
  "cells_match huge_row (columns \<lparr>columns = name_size_columns\<rparr>)"
  "own (attributes (node huge_row)) =
     [''name'' \<mapsto> JStr ''file.txt'', ''size'' \<mapsto> JNum (- 9007199254740992)]"
  by (simp_all add: huge_row_def example_row_fields example_row_cells object_literal_def)

lemma bare_row_hyps:
  "rendered bare_row"
  "getOwnerTree (node bare_row) = Some \<lparr>columns = constructor_columns\<rparr>"
  "cells_match bare_row (columns \<lparr>columns = constructor_columns\<rparr>)"
  "own (attributes (node bare_row)) = Map.empty"
  "inherited (attributes (node bare_row)) ''constructor'' =
     Some (JObj ''function Object() { [native code] }'')"
  by (simp_all add: bare_row_def example_row_fields example_row_cells object_literal_def
      object_prototype_def)

text \<open>Both cells of a row over the two columns of the scenarios.\<close>

lemma updateColumns_two_cells:
  assumes "rendered s" and "getOwnerTree (node s) = Some t"
    and "columns t = name_size_columns" and "cells_match s name_size_columns"
  shows "\<exists>s'. updateColumns s = Inr s' \<and>
      cell_text s' 0 = Some (toString (js_or (get_attr (attributes (node s)) ''name'') (JStr ''Name''))) \<and>
      cell_text s' 1 = Some (toString (js_or (get_attr (attributes (node s)) ''size'') (JStr ''Size'')))"
proof -
  have m: "cells_match s (columns t)" using assms(3,4) by simp
  have l0: "0 < length (columns t)" and l1: "1 < length (columns t)"
    using assms(3) by (simp_all add: name_size_columns_nth)
  from updateColumns_cell [OF assms(1,2) m l0] obtain s0 where
    r0: "updateColumns s = Inr s0"
    and c0: "cell_text s0 0 = Some (toString (cellValue (columns t ! 0) (attributes (node s))))"
    by blast
  from updateColumns_cell [OF assms(1,2) m l1] obtain s1 where
    r1: "updateColumns s = Inr s1"
    and c1: "cell_text s1 1 = Some (toString (cellValue (columns t ! 1) (attributes (node s))))"
    by blast
  from r0 r1 have "s1 = s0" by simp
  with r0 c0 c1 assms(3) show ?thesis
    by (simp add: name_size_columns_nth cellValue_def)
qed

section \<open>The claims\<close>

subsection \<open>C1: the three tiers\<close>

text \<open>
  C1, as amended: on a rendered row whose cells match the columns of its tree,
  \<open>updateColumns\<close> returns normally and the cell of every column \<open>i\<close> then holds
  \<open>tpl.apply(attributes)\<close> when the column has a template; otherwise the string form of
  \<open>attributes[dataIndex]\<close> when that value is truthy (not \<open>undefined\<close>, \<open>null\<close>, \<open>false\<close>,
  \<open>0\<close>, \<open>NaN\<close> or the empty string); otherwise the column's \<open>text\<close>. The value of
  \<open>attributes[dataIndex]\<close> is \<open>get_attr\<close>: an own property, or else an inherited one.
\<close>

theorem updateColumns_precedence:
  assumes "rendered s" and "getOwnerTree (node s) = Some t"
    and "cells_match s (columns t)" and "i < length (columns t)"
  shows "\<exists>s'. updateColumns s = Inr s' \<and>
      cell_text s' i =
        Some (case tpl (columns t ! i) of
                Some f \<Rightarrow> f (attributes (node s))
              | None \<Rightarrow>
                  (if truthy (get_attr (attributes (node s)) (dataIndex (columns t ! i)))
                   then toString (get_attr (attributes (node s)) (dataIndex (columns t ! i)))
                   else text' (columns t ! i)))"
  using updateColumns_cell [OF assms]
  by (cases "tpl (columns t ! i)") (auto simp add: cellValue_def js_or_def)

text \<open>
  Three instances: the second column of the first scenario; the empty object read at
  the key \<open>constructor\<close>, where the value is the function inherited from
  \<open>Object.prototype\<close> and the cell receives its text, not the fallback; and the least
  number of the type, written with all its digits.
\<close>

theorem updateColumns_precedence_witness:
  "rendered file_row \<and>
   getOwnerTree (node file_row) = Some \<lparr>columns = name_size_columns\<rparr> \<and>
   cells_match file_row (columns \<lparr>columns = name_size_columns\<rparr>) \<and>
   1 < length (columns \<lparr>columns = name_size_columns\<rparr>) \<and>
   (\<exists>s'. updateColumns file_row = Inr s' \<and> cell_text s' 1 = Some ''1024'') \<and>
   rendered bare_row \<and>
   getOwnerTree (node bare_row) = Some \<lparr>columns = constructor_columns\<rparr> \<and>
   cells_match bare_row (columns \<lparr>columns = constructor_columns\<rparr>) \<and>
   0 < length (columns \<lparr>columns = constructor_columns\<rparr>) \<and>
   (\<exists>s'. updateColumns bare_row = Inr s' \<and>
      cell_text s' 0 = Some ''function Object() { [native code] }'') \<and>
   rendered huge_row \<and>
   getOwnerTree (node huge_row) = Some \<lparr>columns = name_size_columns\<rparr> \<and>
   cells_match huge_row (columns \<lparr>columns = name_size_columns\<rparr>) \<and>
   (\<exists>s'. updateColumns huge_row = Inr s' \<and> cell_text s' 1 = Some ''-9007199254740992'')"
proof -
  have h4: "1 < length (columns \<lparr>columns = name_size_columns\<rparr>)"
    by (simp add: name_size_columns_nth)
  have b4: "0 < length (columns \<lparr>columns = constructor_columns\<rparr>)"
    by (simp add: constructor_columns_nth)
  have plain: "\<exists>s'. updateColumns file_row = Inr s' \<and> cell_text s' 1 = Some ''1024''"
    using updateColumns_precedence [OF file_row_hyps(1-3) h4] file_row_hyps(4)
    by (simp add: name_size_columns_nth get_attr_def string_of_int_1024)
  have bare: "\<exists>s'. updateColumns bare_row = Inr s' \<and>
      cell_text s' 0 = Some ''function Object() { [native code] }''"
    using updateColumns_precedence [OF bare_row_hyps(1-3) b4] bare_row_hyps(4,5)
    by (simp add: constructor_columns_nth get_attr_def)
  have huge: "\<exists>s'. updateColumns huge_row = Inr s' \<and>
      cell_text s' 1 = Some ''-9007199254740992''"
    using updateColumns_precedence [OF huge_row_hyps(1-3) h4] huge_row_hyps(4)
      toString_least_number
    by (simp add: name_size_columns_nth get_attr_def)
  from plain bare huge file_row_hyps(1-3) bare_row_hyps(1-3) huge_row_hyps(1-3) h4 b4
  show ?thesis by simp
qed

text \<open>
  C1 as the specification words it (the attribute value whenever it is present) fails
  on a row whose attribute \<open>size\<close> is the boolean \<open>false\<close>: the value is present, its string
  form is \<open>false\<close>, and the cell receives the fallback \<open>Size\<close>.
\<close>

theorem updateColumns_present_counterexample:
  "rendered flag_row \<and> getOwnerTree (node flag_row) = Some \<lparr>columns = name_size_columns\<rparr> \<and>
   cells_match flag_row name_size_columns \<and>
   tpl (name_size_columns ! 1) = None \<and>
   own (attributes (node flag_row)) (dataIndex (name_size_columns ! 1)) = Some (JBool False) \<and>
   spec_text_if_present (name_size_columns ! 1) (attributes (node flag_row)) = ''false'' \<and>
   cell_text (state_after (updateColumns flag_row)) 1 = Some ''Size'' \<and>
   cell_text (state_after (updateColumns flag_row)) 1 \<noteq>
     Some (spec_text_if_present (name_size_columns ! 1) (attributes (node flag_row)))"
proof -
  have s: "spec_text_if_present (name_size_columns ! 1) (attributes (node flag_row)) = ''false''"
    by (simp add: flag_row_def example_row_fields spec_text_if_present_def spec_present_def
        get_attr_def name_size_columns_nth object_literal_def)
  have c: "cell_text (state_after (updateColumns flag_row)) 1 = Some ''Size''"
    using example_row_run(2) [of "[''name'' \<mapsto> JStr ''file.txt'', ''size'' \<mapsto> JBool False]"]
    by (simp add: flag_row_def get_attr_def js_or_def object_literal_def)
  have a: "own (attributes (node flag_row)) (dataIndex (name_size_columns ! 1)) = Some (JBool False)"
    by (simp add: flag_row_def example_row_fields name_size_columns_nth object_literal_def)
  from s c a show ?thesis
    by (simp add: flag_row_def example_row_fields example_row_cells name_size_columns_nth)
qed

subsection \<open>C2: the guard\<close>

text \<open>
  C2: on a row whose \<open>rendered\<close> flag is false, \<open>updateColumns\<close> returns normally and
  leaves the whole state, the text of every cell included, as it was.
\<close>

theorem updateColumns_not_rendered:
  "\<not> rendered s \<Longrightarrow> updateColumns s = Inr s"
  by (simp add: updateColumns_def)

theorem updateColumns_not_rendered_witness:
  "\<not> rendered (example_row False [''name'' \<mapsto> JStr ''file.txt''] name_size_columns) \<and>
   updateColumns (example_row False [''name'' \<mapsto> JStr ''file.txt''] name_size_columns) =
     Inr (example_row False [''name'' \<mapsto> JStr ''file.txt''] name_size_columns)"
  using updateColumns_not_rendered
    [of "example_row False [''name'' \<mapsto> JStr ''file.txt''] name_size_columns"]
  by (simp add: example_row_def)

subsection \<open>C3: templates\<close>

text \<open>
  C3: on a rendered row whose cells match the columns of its tree, the cell of a column
  with a template holds exactly \<open>tpl.apply(attributes)\<close> after \<open>updateColumns\<close>, whatever
  the column's \<open>dataIndex\<close> and \<open>text\<close> are.
\<close>

theorem updateColumns_template:
  assumes "rendered s" and "getOwnerTree (node s) = Some t"
    and "cells_match s (columns t)" and "i < length (columns t)"
    and "tpl (columns t ! i) = Some f"
  shows "\<exists>s'. updateColumns s = Inr s' \<and> cell_text s' i = Some (f (attributes (node s)))"
  using updateColumns_cell [OF assms(1-4)] assms(5) by (simp add: cellValue_def)

theorem updateColumns_template_witness:
  "rendered tpl_row \<and> getOwnerTree (node tpl_row) = Some \<lparr>columns = tpl_columns\<rparr> \<and>
   cells_match tpl_row (columns \<lparr>columns = tpl_columns\<rparr>) \<and>
   1 < length (columns \<lparr>columns = tpl_columns\<rparr>) \<and>
   tpl (columns \<lparr>columns = tpl_columns\<rparr> ! 1) = Some size_tpl \<and>
   (\<exists>s'. updateColumns tpl_row = Inr s' \<and> cell_text s' 1 = Some ''1024 bytes'')"
proof -
  have h1: "rendered tpl_row" by (simp add: tpl_row_def example_row_fields)
  have h2: "getOwnerTree (node tpl_row) = Some \<lparr>columns = tpl_columns\<rparr>"
    by (simp add: tpl_row_def example_row_fields)
  have h3: "cells_match tpl_row (columns \<lparr>columns = tpl_columns\<rparr>)"
    by (simp add: tpl_row_def example_row_cells)
  have h4: "1 < length (columns \<lparr>columns = tpl_columns\<rparr>)" by (simp add: tpl_columns_def)
  have h5: "tpl (columns \<lparr>columns = tpl_columns\<rparr> ! 1) = Some size_tpl"
    by (simp add: tpl_columns_def)
  have v: "size_tpl (attributes (node tpl_row)) = ''1024 bytes''"
    by (simp add: tpl_row_def example_row_fields size_tpl_def get_attr_def string_of_int_1024
        object_literal_def)
  from updateColumns_template [OF h1 h2 h3 h4 h5] v h1 h2 h3 h4 h5 show ?thesis by simp
qed

subsection \<open>C4: columns without a template\<close>

text \<open>
  C4, as amended: on a rendered row whose cells match the columns of its tree, the cell
  of a column without a template holds the string form of \<open>attributes[dataIndex]\<close> when
  that value (an own property, or else an inherited one) is truthy, and the column's
  \<open>text\<close> otherwise.
\<close>

theorem updateColumns_no_template:
  assumes "rendered s" and "getOwnerTree (node s) = Some t"
    and "cells_match s (columns t)" and "i < length (columns t)"
    and "tpl (columns t ! i) = None"
  shows "\<exists>s'. updateColumns s = Inr s' \<and>
      cell_text s' i =
        Some (if truthy (get_attr (attributes (node s)) (dataIndex (columns t ! i)))
              then toString (get_attr (attributes (node s)) (dataIndex (columns t ! i)))
              else text' (columns t ! i))"
  using updateColumns_cell [OF assms(1-4)] assms(5)
  by (auto simp add: cellValue_def js_or_def)

text \<open>
  The same three rows as instances: an own string, an inherited function, and the
  least number of the type.
\<close>

theorem updateColumns_no_template_witness:
  "rendered file_row \<and>
   getOwnerTree (node file_row) = Some \<lparr>columns = name_size_columns\<rparr> \<and>
   cells_match file_row (columns \<lparr>columns = name_size_columns\<rparr>) \<and>
   0 < length (columns \<lparr>columns = name_size_columns\<rparr>) \<and>
   tpl (columns \<lparr>columns = name_size_columns\<rparr> ! 0) = None \<and>
   (\<exists>s'. updateColumns file_row = Inr s' \<and> cell_text s' 0 = Some ''file.txt'') \<and>
   rendered bare_row \<and>
   getOwnerTree (node bare_row) = Some \<lparr>columns = constructor_columns\<rparr> \<and>
   cells_match bare_row (columns \<lparr>columns = constructor_columns\<rparr>) \<and>
   0 < length (columns \<lparr>columns = constructor_columns\<rparr>) \<and>
   tpl (columns \<lparr>columns = constructor_columns\<rparr> ! 0) = None \<and>
   (\<exists>s'. updateColumns bare_row = Inr s' \<and>
      cell_text s' 0 = Some ''function Object() { [native code] }'') \<and>
   rendered huge_row \<and>
   getOwnerTree (node huge_row) = Some \<lparr>columns = name_size_columns\<rparr> \<and>
   cells_match huge_row (columns \<lparr>columns = name_size_columns\<rparr>) \<and>
   1 < length (columns \<lparr>columns = name_size_columns\<rparr>) \<and>
   tpl (columns \<lparr>columns = name_size_columns\<rparr> ! 1) = None \<and>
   (\<exists>s'. updateColumns huge_row = Inr s' \<and> cell_text s' 1 = Some ''-9007199254740992'')"
proof -
  have h4: "0 < length (columns \<lparr>columns = name_size_columns\<rparr>)"
    by (simp add: name_size_columns_nth)
  have h5: "tpl (columns \<lparr>columns = name_size_columns\<rparr> ! 0) = None"
    by (simp add: name_size_columns_nth)
  have b4: "0 < length (columns \<lparr>columns = constructor_columns\<rparr>)"
    by (simp add: constructor_columns_nth)
  have b5: "tpl (columns \<lparr>columns = constructor_columns\<rparr> ! 0) = None"
    by (simp add: constructor_columns_nth)
  have g4: "1 < length (columns \<lparr>columns = name_size_columns\<rparr>)"
    by (simp add: name_size_columns_nth)
  have g5: "tpl (columns \<lparr>columns = name_size_columns\<rparr> ! 1) = None"
    by (simp add: name_size_columns_nth)
  have plain: "\<exists>s'. updateColumns file_row = Inr s' \<and> cell_text s' 0 = Some ''file.txt''"
    using updateColumns_no_template [OF file_row_hyps(1-3) h4 h5] file_row_hyps(4)
    by (simp add: name_size_columns_nth get_attr_def)
  have bare: "\<exists>s'. updateColumns bare_row = Inr s' \<and>
      cell_text s' 0 = Some ''function Object() { [native code] }''"
    using updateColumns_no_template [OF bare_row_hyps(1-3) b4 b5] bare_row_hyps(4,5)
    by (simp add: constructor_columns_nth get_attr_def)
  have huge: "\<exists>s'. updateColumns huge_row = Inr s' \<and>
      cell_text s' 1 = Some ''-9007199254740992''"
    using updateColumns_no_template [OF huge_row_hyps(1-3) g4 g5] huge_row_hyps(4)
      toString_least_number
    by (simp add: name_size_columns_nth get_attr_def)
  from plain bare huge file_row_hyps(1-3) bare_row_hyps(1-3) huge_row_hyps(1-3) h4 h5 b4 b5 g4 g5
  show ?thesis by simp
qed

text \<open>
  C4 as the specification words it (the attribute value whenever it is present and
  non-empty) fails on a row whose attribute \<open>size\<close> is the number 0: the value is present
  and is not the empty string, its string form is \<open>0\<close>, and the cell receives the fallback
  \<open>Size\<close>.
\<close>

theorem updateColumns_nonempty_counterexample:
  "rendered empty_file_row \<and>
   getOwnerTree (node empty_file_row) = Some \<lparr>columns = name_size_columns\<rparr> \<and>
   cells_match empty_file_row name_size_columns \<and>
   tpl (name_size_columns ! 1) = None \<and>
   own (attributes (node empty_file_row)) (dataIndex (name_size_columns ! 1)) = Some (JNum 0) \<and>
   spec_text_if_nonempty (name_size_columns ! 1) (attributes (node empty_file_row)) = ''0'' \<and>
   cell_text (state_after (updateColumns empty_file_row)) 1 = Some ''Size'' \<and>
   cell_text (state_after (updateColumns empty_file_row)) 1 \<noteq>
     Some (spec_text_if_nonempty (name_size_columns ! 1) (attributes (node empty_file_row)))"
proof -
  have s: "spec_text_if_nonempty (name_size_columns ! 1) (attributes (node empty_file_row)) = ''0''"
    by (simp add: empty_file_row_hyps spec_text_if_nonempty_def spec_present_def get_attr_def
        name_size_columns_nth string_of_int_def string_of_nat.simps digit_char_def)
  have c: "cell_text (state_after (updateColumns empty_file_row)) 1 = Some ''Size''"
    using example_row_run(2) [of "[''name'' \<mapsto> JStr ''file.txt'', ''size'' \<mapsto> JNum 0]"]
    by (simp add: empty_file_row_def get_attr_def js_or_def object_literal_def)
  have a: "own (attributes (node empty_file_row)) (dataIndex (name_size_columns ! 1)) = Some (JNum 0)"
    by (simp add: empty_file_row_hyps name_size_columns_nth)
  from s c a empty_file_row_hyps show ?thesis
    by (simp add: name_size_columns_nth)
qed

subsection \<open>C5: column order is cell order\<close>

text \<open>
  C5: on a rendered row whose cells match the columns of its tree (at least one
  column), \<open>updateColumns\<close> returns normally; the element \<open>anchor.firstChild\<close> then holds
  the text computed for column 0, for every \<open>i\<close> from 1 up to the number of columns the
  element \<open>elNode.childNodes[i].firstChild\<close> holds the text computed for column \<open>i\<close>, and
  every element that is not the cell of a column keeps its content.
\<close>

theorem updateColumns_cell_order:
  assumes "rendered s" and "getOwnerTree (node s) = Some t"
    and "cells_match s (columns t)" and "columns t \<noteq> []"
  shows "\<exists>s'. updateColumns s = Inr s' \<and>
      (\<exists>p. anchor_firstChild s' = Some p \<and>
           innerHTML s' p = toString (cellValue (columns t ! 0) (attributes (node s)))) \<and>
      (\<forall>i. 1 \<le> i \<and> i < length (columns t) \<longrightarrow>
           (\<exists>p. js_index (elNode_childNodes s') i = Some (Some p) \<and>
                innerHTML s' p = toString (cellValue (columns t ! i) (attributes (node s))))) \<and>
      (\<forall>q. (\<forall>i. i < length (columns t) \<longrightarrow> cell_slot s i \<noteq> Some q) \<longrightarrow>
           innerHTML s' q = innerHTML s q)"
proof -
  from updateColumns_effect [OF assms] obtain s' where
    res: "updateColumns s = Inr s'"
    and w: "\<forall>i p. i < length (columns t) \<and> cell_slot s i = Some p \<longrightarrow>
          innerHTML s' p = toString (cellValue (columns t ! i) (attributes (node s)))"
    and u: "\<forall>q. (\<forall>i. i < length (columns t) \<longrightarrow> cell_slot s i \<noteq> Some q) \<longrightarrow>
          innerHTML s' q = innerHTML s q"
    and fr: "anchor_firstChild s' = anchor_firstChild s" "elNode_childNodes s' = elNode_childNodes s"
    by blast
  from assms(4) have n0: "0 < length (columns t)" by simp
  from cells_match_slot [OF assms(3) n0] obtain p0 where p0: "cell_slot s 0 = Some p0" by blast
  then have "anchor_firstChild s' = Some p0" using fr by (simp add: cell_slot_def)
  moreover have "innerHTML s' p0 = toString (cellValue (columns t ! 0) (attributes (node s)))"
    using w n0 p0 by blast
  ultimately have first: "\<exists>p. anchor_firstChild s' = Some p \<and>
      innerHTML s' p = toString (cellValue (columns t ! 0) (attributes (node s)))"
    by blast
  have rest: "\<forall>i. 1 \<le> i \<and> i < length (columns t) \<longrightarrow>
      (\<exists>p. js_index (elNode_childNodes s') i = Some (Some p) \<and>
           innerHTML s' p = toString (cellValue (columns t ! i) (attributes (node s))))"
  proof (intro allI impI)
    fix i assume h: "1 \<le> i \<and> i < length (columns t)"
    then obtain p where p: "cell_slot s i = Some p" using cells_match_slot [OF assms(3)] by blast
    with h have "js_index (elNode_childNodes s') i = Some (Some p)"
      using cell_slot_later [of i s p] fr by simp
    moreover have "innerHTML s' p = toString (cellValue (columns t ! i) (attributes (node s)))"
      using w h p by blast
    ultimately show "\<exists>p. js_index (elNode_childNodes s') i = Some (Some p) \<and>
        innerHTML s' p = toString (cellValue (columns t ! i) (attributes (node s)))"
      by blast
  qed
  from res first rest u show ?thesis by blast
qed

theorem updateColumns_cell_order_witness:
  "rendered file_row \<and>
   getOwnerTree (node file_row) = Some \<lparr>columns = name_size_columns\<rparr> \<and>
   cells_match file_row (columns \<lparr>columns = name_size_columns\<rparr>) \<and>
   columns \<lparr>columns = name_size_columns\<rparr> \<noteq> [] \<and>
   (\<exists>s'. updateColumns file_row = Inr s' \<and>
      anchor_firstChild s' = Some 0 \<and> innerHTML s' 0 = ''file.txt'' \<and>
      js_index (elNode_childNodes s') 1 = Some (Some 1) \<and> innerHTML s' 1 = ''1024'' \<and>
      innerHTML s' 2 = innerHTML file_row 2)"
proof -
  have h4: "columns \<lparr>columns = name_size_columns\<rparr> \<noteq> []"
    by (simp add: name_size_columns_def)
  from updateColumns_cell_order [OF file_row_hyps(1-3) h4] obtain s' where
    res: "updateColumns file_row = Inr s'"
    and first: "\<exists>p. anchor_firstChild s' = Some p \<and>
      innerHTML s' p = toString (cellValue (name_size_columns ! 0) (attributes (node file_row)))"
    and rest: "\<forall>i. 1 \<le> i \<and> i < length name_size_columns \<longrightarrow>
      (\<exists>p. js_index (elNode_childNodes s') i = Some (Some p) \<and>
           innerHTML s' p = toString (cellValue (name_size_columns ! i) (attributes (node file_row))))"
    and u: "\<forall>q. (\<forall>i. i < length name_size_columns \<longrightarrow> cell_slot file_row i \<noteq> Some q) \<longrightarrow>
           innerHTML s' q = innerHTML file_row q"
    by auto
  have fr: "anchor_firstChild s' = Some 0" "elNode_childNodes s' = [Some 2, Some 1]"
    using updateColumns_frame [of file_row] res
    by (simp_all add: file_row_def example_row_def)
  from first fr have c0: "innerHTML s' 0 = ''file.txt''"
    by (simp add: name_size_columns_nth cellValue_def js_or_def get_attr_def file_row_hyps)
  have "1 \<le> (1::nat) \<and> 1 < length name_size_columns" by (simp add: name_size_columns_nth)
  with rest have "\<exists>p. js_index (elNode_childNodes s') 1 = Some (Some p) \<and>
           innerHTML s' p = toString (cellValue (name_size_columns ! 1) (attributes (node file_row)))"
    by blast
  with fr have c1: "js_index (elNode_childNodes s') 1 = Some (Some 1) \<and> innerHTML s' 1 = ''1024''"
    by (simp add: name_size_columns_nth cellValue_def js_or_def get_attr_def file_row_hyps
        js_index_def string_of_int_1024)
  have "\<forall>i. i < length name_size_columns \<longrightarrow> cell_slot file_row i \<noteq> Some 2"
    by (simp add: name_size_columns_nth cell_slot_def js_index_def file_row_def example_row_def
        less_Suc_eq numeral_2_eq_2)
  with u have c2: "innerHTML s' 2 = innerHTML file_row 2" by blast
  from res fr c0 c1 c2 file_row_hyps h4 show ?thesis by simp
qed

subsection \<open>C6: idempotence\<close>

text \<open>
  C6: calling \<open>updateColumns\<close> again on the state a first call leaves gives the same
  outcome and leaves that state as it is, for every row: rendered or not, with or
  without a fault in the first call, and also when two cells are the same element.
\<close>

theorem updateColumns_idempotent:
  "updateColumns (state_after (updateColumns s)) = updateColumns s"
proof (cases "rendered s")
  case False
  then show ?thesis by (simp add: updateColumns_def)
next
  case r: True
  show ?thesis
  proof (cases "getOwnerTree (node s)")
    case None
    with r show ?thesis by (simp add: updateColumns_def)
  next
    case (Some t)
    show ?thesis
    proof (cases "js_index (columns t) 0")
      case None
      with r Some show ?thesis by (simp add: updateColumns_def)
    next
      case c: (Some c)
      show ?thesis
      proof (cases "anchor_firstChild s")
        case None
        with r Some c show ?thesis by (simp add: updateColumns_def)
      next
        case p: (Some p)
        let ?a = "attributes (node s)"
        let ?n = "length (columns t)"
        let ?w = "(p, toString (cellValue c ?a))"
        obtain ok k ws where
          pl: "loop_plan ?a (columns t) (elNode_childNodes s) 1 ?n = (ok, k, ws)"
          by (cases "loop_plan ?a (columns t) (elNode_childNodes s) 1 ?n")
        let ?s' = "s\<lparr>innerHTML := fold store_write (?w # ws) (innerHTML s),
                      global_i := JNum (of_nat k), global_len := JNum (of_nat ?n)\<rparr>"
        have k: "1 \<le> k" using loop_plan_stop [of 1 ?a "columns t" "elNode_childNodes s" ?n] pl by simp
        have first: "updateColumns s = (if ok then Inr ?s' else Inl (TypeError, ?s'))"
          using r Some c p pl k
          by (simp add: updateColumns_def updateRemaining_plan finish_def set_innerHTML_def
              store_write_def Let_def)
        have after: "state_after (updateColumns s) = ?s'" using first by simp
        have again: "fold store_write ws
            ((fold store_write ws ((innerHTML s)(p := toString (cellValue c ?a))))
               (p := toString (cellValue c ?a))) =
            fold store_write ws ((innerHTML s)(p := toString (cellValue c ?a)))"
          using fold_store_write_twice [of "?w # ws" "innerHTML s"]
          by (simp add: store_write_def)
        have second: "updateColumns ?s' = (if ok then Inr ?s' else Inl (TypeError, ?s'))"
          using r Some c p pl k
          by (simp add: updateColumns_def updateRemaining_plan finish_def set_innerHTML_def
              store_write_def Let_def again)
        show ?thesis using first second after by simp
      qed
    qed
  qed
qed

subsection \<open>C7: what the call changes\<close>

text \<open>
  C7: the call is to change the text of cells and nothing else. On the rendered row of
  the first scenario, with the globals \<open>i\<close> and \<open>len\<close> undefined before the call, both are
  the number 2 after it: the loop assigns its counter and its bound to the global object.
  What the call leaves alone in every case is \<open>updateColumns_frame\<close>.
\<close>

theorem updateColumns_assigns_globals:
  "rendered file_row \<and> cells_match file_row name_size_columns \<and>
   global_i file_row = JUndefined \<and> global_len file_row = JUndefined \<and>
   global_i (state_after (updateColumns file_row)) = JNum 2 \<and>
   global_len (state_after (updateColumns file_row)) = JNum 2"
  using file_row_hyps
  by (simp add: file_row_def example_row_fields example_row_run)

subsection \<open>C8 and C9: the two scenarios\<close>

text \<open>
  C8: on a rendered row with attributes \<open>{name: "file.txt", size: 1024}\<close> and the two
  columns \<open>name_size_columns\<close>, cell 0 holds \<open>file.txt\<close> and cell 1 holds \<open>1024\<close> after
  \<open>updateColumns\<close>.
\<close>

theorem updateColumns_file_scenario:
  assumes "rendered s" and "getOwnerTree (node s) = Some t"
    and "columns t = name_size_columns" and "cells_match s name_size_columns"
    and "own (attributes (node s)) = [''name'' \<mapsto> JStr ''file.txt'', ''size'' \<mapsto> JNum 1024]"
  shows "\<exists>s'. updateColumns s = Inr s' \<and>
      cell_text s' 0 = Some ''file.txt'' \<and> cell_text s' 1 = Some ''1024''"
  using updateColumns_two_cells [OF assms(1-4)] assms(5)
  by (simp add: get_attr_def js_or_def string_of_int_1024)

theorem updateColumns_file_scenario_witness:
  "rendered file_row \<and>
   getOwnerTree (node file_row) = Some \<lparr>columns = name_size_columns\<rparr> \<and>
   columns \<lparr>columns = name_size_columns\<rparr> = name_size_columns \<and>
   cells_match file_row name_size_columns \<and>
   own (attributes (node file_row)) = [''name'' \<mapsto> JStr ''file.txt'', ''size'' \<mapsto> JNum 1024] \<and>
   (\<exists>s'. updateColumns file_row = Inr s' \<and>
      cell_text s' 0 = Some ''file.txt'' \<and> cell_text s' 1 = Some ''1024'')"
proof -
  have h3: "columns \<lparr>columns = name_size_columns\<rparr> = name_size_columns" by simp
  have h4: "cells_match file_row name_size_columns" using file_row_hyps(3) by simp
  from updateColumns_file_scenario [OF file_row_hyps(1,2) h3 h4 file_row_hyps(4)]
    file_row_hyps h3 h4
  show ?thesis by simp
qed

text \<open>
  C9: on a rendered row with attributes \<open>{name: "", size: 1024}\<close> and the same two
  columns, cell 0 holds the fallback \<open>Name\<close> and cell 1 holds \<open>1024\<close> after
  \<open>updateColumns\<close>.
\<close>

theorem updateColumns_empty_name_scenario:
  assumes "rendered s" and "getOwnerTree (node s) = Some t"
    and "columns t = name_size_columns" and "cells_match s name_size_columns"
    and "own (attributes (node s)) = [''name'' \<mapsto> JStr [], ''size'' \<mapsto> JNum 1024]"
  shows "\<exists>s'. updateColumns s = Inr s' \<and>
      cell_text s' 0 = Some ''Name'' \<and> cell_text s' 1 = Some ''1024''"
  using updateColumns_two_cells [OF assms(1-4)] assms(5)
  by (simp add: get_attr_def js_or_def string_of_int_1024)

theorem updateColumns_empty_name_scenario_witness:
  "rendered unnamed_row \<and>
   getOwnerTree (node unnamed_row) = Some \<lparr>columns = name_size_columns\<rparr> \<and>
   columns \<lparr>columns = name_size_columns\<rparr> = name_size_columns \<and>
   cells_match unnamed_row name_size_columns \<and>
   own (attributes (node unnamed_row)) = [''name'' \<mapsto> JStr [], ''size'' \<mapsto> JNum 1024] \<and>
   (\<exists>s'. updateColumns unnamed_row = Inr s' \<and>
      cell_text s' 0 = Some ''Name'' \<and> cell_text s' 1 = Some ''1024'')"
proof -
  have h3: "columns \<lparr>columns = name_size_columns\<rparr> = name_size_columns" by simp
  have h4: "cells_match unnamed_row name_size_columns" using unnamed_row_hyps(3) by simp
  from updateColumns_empty_name_scenario [OF unnamed_row_hyps(1,2) h3 h4 unnamed_row_hyps(4)]
    unnamed_row_hyps h3 h4
  show ?thesis by simp
qed

subsection \<open>C10: falsy attribute values\<close>

text \<open>
  C10: on a rendered row whose cells match the columns of its tree, the cell of a column
  without a template whose attribute is an own property with a falsy value (such as the
  number 0 or the boolean \<open>false\<close>) holds the column's \<open>text\<close> after \<open>updateColumns\<close>.
\<close>

theorem updateColumns_falsy_fallback:
  assumes "rendered s" and "getOwnerTree (node s) = Some t"
    and "cells_match s (columns t)" and "i < length (columns t)"
    and "tpl (columns t ! i) = None"
    and "own (attributes (node s)) (dataIndex (columns t ! i)) = Some v"
    and "\<not> truthy v"
  shows "\<exists>s'. updateColumns s = Inr s' \<and> cell_text s' i = Some (text' (columns t ! i))"
  using updateColumns_cell [OF assms(1-4)] assms(5-7)
  by (simp add: cellValue_def js_or_def get_attr_def)

theorem updateColumns_falsy_fallback_witness:
  "rendered empty_file_row \<and>
   getOwnerTree (node empty_file_row) = Some \<lparr>columns = name_size_columns\<rparr> \<and>
   cells_match empty_file_row (columns \<lparr>columns = name_size_columns\<rparr>) \<and>
   1 < length (columns \<lparr>columns = name_size_columns\<rparr>) \<and>
   tpl (columns \<lparr>columns = name_size_columns\<rparr> ! 1) = None \<and>
   own (attributes (node empty_file_row)) (dataIndex (columns \<lparr>columns = name_size_columns\<rparr> ! 1)) =
     Some (JNum 0) \<and>
   \<not> truthy (JNum 0) \<and>
   (\<exists>s'. updateColumns empty_file_row = Inr s' \<and> cell_text s' 1 = Some ''Size'')"
proof -
  have h4: "1 < length (columns \<lparr>columns = name_size_columns\<rparr>)"
    by (simp add: name_size_columns_nth)
  have h5: "tpl (columns \<lparr>columns = name_size_columns\<rparr> ! 1) = None"
    by (simp add: name_size_columns_nth)
  have h6: "own (attributes (node empty_file_row))
      (dataIndex (columns \<lparr>columns = name_size_columns\<rparr> ! 1)) = Some (JNum 0)"
    by (simp add: name_size_columns_nth empty_file_row_hyps)
  have h7: "\<not> truthy (JNum 0)" by simp
  from updateColumns_falsy_fallback [OF empty_file_row_hyps(1-3) h4 h5 h6 h7]
    empty_file_row_hyps h4 h5 h6
  show ?thesis by (simp add: name_size_columns_nth)
qed

end
